theory Spec2Isabelle
  imports Complex_Main
begin

section \<open>Numbers and strings of the script\<close>

text \<open>
  The script computes with JavaScript numbers. They are modelled as exact reals. For the
  years this is what the script computes: slider years between 1871 and 2022, advanced
  in steps of one half, are added and compared without rounding. In the easing of the
  tooltip the factor \<open>0.1\<close> is read as one tenth; the rounding of binary floating
  point, \<open>NaN\<close> and the infinities are outside the model. Integer results
  (\<open>Math.floor\<close>, \<open>Math.round\<close>) are \<open>int\<close>, and their conversion to a string by \<open>+\<close>
  is the decimal numeral, with a leading minus sign for a negative number.
\<close>

definition digit :: "nat \<Rightarrow> char" where
  "digit d = ''0123456789'' ! (d mod 10)"

fun string_of_nat :: "nat \<Rightarrow> string" where
  "string_of_nat n =
     (if n < 10 then [digit n] else string_of_nat (n div 10) @ [digit (n mod 10)])"

declare string_of_nat.simps [simp del]

definition string_of_int :: "int \<Rightarrow> string" where
  "string_of_int i = (if i < 0 then CHR ''-'' # string_of_nat (nat (- i)) else string_of_nat (nat i))"

text \<open>\<open>Math.floor\<close> and \<open>Math.round\<close> (the latter rounds a half upwards).\<close>

definition Math_floor :: "real \<Rightarrow> int" where
  "Math_floor v = \<lfloor>v\<rfloor>"

definition Math_round :: "real \<Rightarrow> int" where
  "Math_round v = \<lfloor>v + 1 / 2\<rfloor>"

section \<open>The renderer of a year\<close>

record opacity_stop =
  os_opacity :: real
  os_value :: real

record color_stop =
  cs_value :: real
  cs_color :: string
  cs_label :: string

record fill_symbol =
  sym_type :: string
  sym_color :: string
  sym_outline :: "string option"

datatype visual_variable =
    OpacityVariable string "opacity_stop list" bool
  | ColorVariable string string "color_stop list"

record renderer =
  r_type :: string
  r_symbol :: fill_symbol
  visualVariables :: "visual_variable list"

definition opacityStops :: "real \<Rightarrow> opacity_stop list" where
  "opacityStops year =
     [\<lparr>os_opacity = 1, os_value = year\<rparr>, \<lparr>os_opacity = 0, os_value = year + 1\<rparr>]"

definition createRenderer :: "real \<Rightarrow> renderer" where
  "createRenderer year =
     \<lparr>r_type = ''simple'',
      r_symbol = \<lparr>sym_type = ''simple-fill'', sym_color = ''rgb(0, 0, 0)'', sym_outline = None\<rparr>,
      visualVariables =
        [OpacityVariable ''CNSTRCT_YR'' (opacityStops year) False,
         ColorVariable ''CNSTRCT_YR'' ''Titled:''
           [\<lparr>cs_value = year, cs_color = ''#e7ed8a'',
               cs_label = ''in '' @ string_of_int (Math_floor year)\<rparr>,
            \<lparr>cs_value = year - 10, cs_color = ''#eaed13'',
               cs_label = ''in '' @ string_of_int (Math_floor year - 10)\<rparr>,
            \<lparr>cs_value = year - 20, cs_color = ''#007af4'',
               cs_label = ''before '' @ string_of_int (Math_floor year - 20)\<rparr>]]\<rparr>"

text \<open>All opacity stops, and all color stops, that a renderer carries.\<close>

fun opacity_stops_of :: "visual_variable \<Rightarrow> opacity_stop list" where
  "opacity_stops_of (OpacityVariable field stops showLegend) = stops"
| "opacity_stops_of (ColorVariable field title stops) = []"

fun color_stops_of :: "visual_variable \<Rightarrow> color_stop list" where
  "color_stops_of (OpacityVariable field stops showLegend) = []"
| "color_stops_of (ColorVariable field title stops) = stops"

definition opacity_ramp :: "renderer \<Rightarrow> opacity_stop list" where
  "opacity_ramp r = concat (map opacity_stops_of (visualVariables r))"

definition color_ramp :: "renderer \<Rightarrow> color_stop list" where
  "color_ramp r = concat (map color_stops_of (visualVariables r))"

section \<open>The animation of the year\<close>

text \<open>
  What \<open>setYear\<close> writes: the text of the year label, the value of the slider's first
  thumb and the renderer of the layer.
\<close>

record page =
  sliderValue_innerHTML :: string
  slider_values_0 :: real
  layer_renderer :: renderer

definition setYear :: "real \<Rightarrow> page \<Rightarrow> page" where
  "setYear v p =
     p\<lparr>sliderValue_innerHTML := string_of_int (Math_floor v),
       slider_values_0 := v,
       layer_renderer := createRenderer v\<rparr>"

text \<open>
  The closure of \<open>animate\<close>: its two variables, the number of ticks that
  \<open>setTimeout\<close> and \<open>requestAnimationFrame\<close> hold for a later call of \<open>frame\<close>, the
  arguments of the calls of \<open>setYear\<close> made so far (oldest first), and the page they
  wrote to.
\<close>

record animation =
  animating :: bool
  anim_value :: real
  scheduled :: nat
  setYear_calls :: "real list"
  anim_page :: page

definition frame :: "animation \<Rightarrow> animation" where
  "frame a =
     (if \<not> animating a then a
      else
        let v = anim_value a + 0.5;
            v = (if v > 2017 then 1880 else v)
        in a\<lparr>anim_value := v,
             setYear_calls := setYear_calls a @ [v],
             anim_page := setYear v (anim_page a),
             scheduled := scheduled a + 1\<rparr>)"

definition animate :: "real \<Rightarrow> page \<Rightarrow> animation" where
  "animate startValue p =
     frame \<lparr>animating = True, anim_value = startValue, scheduled = 0,
            setYear_calls = [], anim_page = p\<rparr>"

text \<open>The \<open>remove\<close> of the handle that \<open>animate\<close> returns.\<close>

definition remove_handle :: "animation \<Rightarrow> animation" where
  "remove_handle a = a\<lparr>animating := False\<rparr>"

text \<open>A scheduled tick comes due: the browser calls \<open>frame\<close>.\<close>

definition fire :: "animation \<Rightarrow> animation" where
  "fire a = (if scheduled a = 0 then a else frame (a\<lparr>scheduled := scheduled a - 1\<rparr>))"

text \<open>The page once the script has started: it ends its setup with \<open>setYear(1871)\<close>.\<close>

definition initial_page :: page where
  "initial_page =
     \<lparr>sliderValue_innerHTML = ''1871'', slider_values_0 = 1871,
      layer_renderer = createRenderer 1871\<rparr>"

section \<open>The tooltip\<close>

record point =
  point_x :: real
  point_y :: real

text \<open>
  The closure of \<open>createTooltip\<close>: its five variables, the style and the text of the
  two elements, and the number of calls of \<open>move\<close> that \<open>requestAnimationFrame\<close> holds.
\<close>

record tooltip =
  x :: real
  y :: real
  targetX :: real
  targetY :: real
  visible :: bool
  style_opacity :: string
  style_transform :: string
  innerHTML :: string
  frame_requests :: nat

definition createTooltip :: tooltip where
  "createTooltip =
     \<lparr>x = 0, y = 0, targetX = 0, targetY = 0, visible = False,
      style_opacity = [], style_transform = [], innerHTML = [], frame_requests = 0\<rparr>"

definition move :: "tooltip \<Rightarrow> tooltip" where
  "move t =
     (let t = t\<lparr>x := x t + (targetX t - x t) * 0.1\<rparr>;
          t = t\<lparr>y := y t + (targetY t - y t) * 0.1\<rparr>;
          t = (if \<bar>targetX t - x t\<bar> < 1 \<and> \<bar>targetY t - y t\<bar> < 1
               then t\<lparr>x := targetX t, y := targetY t\<rparr>
               else t\<lparr>frame_requests := frame_requests t + 1\<rparr>)
      in t\<lparr>style_transform :=
             ''translate3d('' @ string_of_int (Math_round (x t)) @ ''px,''
               @ string_of_int (Math_round (y t)) @ ''px, 0)''\<rparr>)"

definition show_tooltip :: "point \<Rightarrow> string \<Rightarrow> tooltip \<Rightarrow> tooltip" where
  "show_tooltip p txt t =
     (let t = (if \<not> visible t then t\<lparr>x := point_x p, y := point_y p\<rparr> else t);
          t = t\<lparr>targetX := point_x p, targetY := point_y p, style_opacity := ''1'',
                visible := True, innerHTML := txt\<rparr>
      in move t)"

definition hide :: "tooltip \<Rightarrow> tooltip" where
  "hide t = t\<lparr>style_opacity := ''0'', visible := False\<rparr>"

text \<open>The browser paints a frame: one requested call of \<open>move\<close> runs.\<close>

definition animation_frame :: "tooltip \<Rightarrow> tooltip" where
  "animation_frame t =
     (if frame_requests t = 0 then t else move (t\<lparr>frame_requests := frame_requests t - 1\<rparr>))"

text \<open>
  The easing loop: frames are painted as long as a call of \<open>move\<close> is requested. The
  result is \<open>None\<close> if that never ends.
\<close>

partial_function (option) run_frames :: "tooltip \<Rightarrow> tooltip option" where
  "run_frames t =
     (if frame_requests t = 0 then Some t
      else run_frames (move (t\<lparr>frame_requests := frame_requests t - 1\<rparr>)))"

section \<open>The hover handler\<close>

text \<open>
  An attribute of a feature and its conversion to a string by \<open>+\<close>. A numeric attribute
  is an integer (the construction year); a missing attribute reads as \<open>undefined\<close>.
\<close>

datatype js_value = JSNumber int | JSString string | JSNull | JSUndefined

fun ToString :: "js_value \<Rightarrow> string" where
  "ToString (JSNumber i) = string_of_int i"
| "ToString (JSString s) = s"
| "ToString JSNull = ''null''"
| "ToString JSUndefined = ''undefined''"

record graphic =
  graphic_layer :: nat
  attributes :: "string \<rightharpoonup> js_value"

definition getAttribute :: "graphic \<Rightarrow> string \<Rightarrow> js_value" where
  "getAttribute g name = (case attributes g name of None \<Rightarrow> JSUndefined | Some v \<Rightarrow> v)"

text \<open>
  What \<open>view.hitTest\<close> resolves with, and what the filter of the script keeps of it:
  the first result whose graphic is on the layer, with the screen point of the hit. A
  layer is identified by a number. The debouncing around the hit test only decides which
  pointer events reach it and is not part of the model.
\<close>

record hit_result =
  results :: "graphic list"
  screenPoint :: point

record hover_hit =
  hit_graphic :: graphic
  hit_screenPoint :: point

datatype 'a promise = Resolved 'a | Rejected string

definition hitTest :: "nat \<Rightarrow> hit_result promise \<Rightarrow> hover_hit option promise" where
  "hitTest layer outcome =
     (case outcome of
        Rejected e \<Rightarrow> Rejected e
      | Resolved hit \<Rightarrow>
          (case filter (\<lambda>g. graphic_layer g = layer) (results hit) of
             [] \<Rightarrow> Resolved None
           | g # _ \<Rightarrow> Resolved (Some \<lparr>hit_graphic = g, hit_screenPoint = screenPoint hit\<rparr>)))"

text \<open>
  The layer view keeps the highlights that are applied; \<open>highlight\<close> adds one and returns
  its handle, the \<open>remove\<close> of a handle takes that one away.
\<close>

record handle =
  handle_id :: nat
  handle_graphic :: graphic

record hover =
  highlight :: "handle option"
  applied :: "handle list"
  next_id :: nat
  tip :: tooltip

definition setupHoverTooltip :: hover where
  "setupHoverTooltip = \<lparr>highlight = None, applied = [], next_id = 0, tip = createTooltip\<rparr>"

definition remove_current :: "hover \<Rightarrow> hover" where
  "remove_current h =
     (case highlight h of
        None \<Rightarrow> h
      | Some c \<Rightarrow> h\<lparr>applied := filter (\<lambda>c'. handle_id c' \<noteq> handle_id c) (applied h),
                     highlight := None\<rparr>)"

definition layerview_highlight :: "graphic \<Rightarrow> hover \<Rightarrow> handle \<times> hover" where
  "layerview_highlight g h =
     (let c = \<lparr>handle_id = next_id h, handle_graphic = g\<rparr>
      in (c, h\<lparr>applied := applied h @ [c], next_id := next_id h + 1\<rparr>))"

definition pointer_move :: "hover_hit option promise \<Rightarrow> hover \<Rightarrow> unit promise \<times> hover" where
  "pointer_move outcome h =
     (case outcome of
        Rejected e \<Rightarrow> (Resolved (), h)
      | Resolved hit \<Rightarrow>
          (let h = remove_current h
           in case hit of
                Some found \<Rightarrow>
                  (let (c, h) = layerview_highlight (hit_graphic found) h;
                       h = h\<lparr>highlight := Some c\<rparr>
                   in (Resolved (),
                       h\<lparr>tip := show_tooltip (hit_screenPoint found)
                                 (''Titled in '' @ ToString (getAttribute (hit_graphic found) ''CNSTRCT_YR''))
                                 (tip h)\<rparr>))
              | None \<Rightarrow> (Resolved (), h\<lparr>tip := hide (tip h)\<rparr>)))"

text \<open>The distance left to the target, the larger one of the two axes.\<close>

definition gap :: "tooltip \<Rightarrow> real" where
  "gap t = max \<bar>targetX t - x t\<bar> \<bar>targetY t - y t\<bar>"

text \<open>
  The handler's state is sound when the highlights applied to the layer view are exactly
  the stored one, if any.
\<close>

definition single_highlight :: "hover \<Rightarrow> bool" where
  "single_highlight h = (applied h = (case highlight h of None \<Rightarrow> [] | Some c \<Rightarrow> [c]))"

text \<open>The handler run on the outcomes of a sequence of hit tests.\<close>

definition pointer_moves :: "hover_hit option promise list \<Rightarrow> hover \<Rightarrow> hover" where
  "pointer_moves outcomes h = fold (\<lambda>outcome h. snd (pointer_move outcome h)) outcomes h"

section \<open>Properties of the renderer\<close>

text \<open>
  C3. For every real year, the renderer carries exactly two opacity stops: opacity 1 at
  the year and opacity 0 at the year plus one, in one opacity variable, and nothing else
  contributes an opacity stop. The function is total: it accepts any real.
\<close>

theorem createRenderer_opacity_ramp:
  "opacity_ramp (createRenderer year) =
     [\<lparr>os_opacity = 1, os_value = year\<rparr>, \<lparr>os_opacity = 0, os_value = year + 1\<rparr>]
   \<and> length (filter (\<lambda>v. opacity_stops_of v \<noteq> []) (visualVariables (createRenderer year))) = 1"
  by (simp add: opacity_ramp_def createRenderer_def opacityStops_def)

text \<open>
  C4. For every real year, the renderer carries exactly three color stops, in one color
  variable: at the year, ten below and twenty below, in this strictly decreasing order,
  with the three fixed colors and the labels built from the floor of the year. The
  renderer is a function of the year alone, and its first stop is at the year it was
  called with, so no earlier result is reused.
\<close>

theorem createRenderer_color_ramp:
  "color_ramp (createRenderer year) =
     [\<lparr>cs_value = year, cs_color = ''#e7ed8a'',
         cs_label = ''in '' @ string_of_int \<lfloor>year\<rfloor>\<rparr>,
      \<lparr>cs_value = year - 10, cs_color = ''#eaed13'',
         cs_label = ''in '' @ string_of_int (\<lfloor>year\<rfloor> - 10)\<rparr>,
      \<lparr>cs_value = year - 20, cs_color = ''#007af4'',
         cs_label = ''before '' @ string_of_int (\<lfloor>year\<rfloor> - 20)\<rparr>]
   \<and> map cs_value (color_ramp (createRenderer year)) = [year, year - 10, year - 20]
   \<and> sorted_wrt (\<lambda>v w. v > w) (map cs_value (color_ramp (createRenderer year)))
   \<and> length (filter (\<lambda>v. color_stops_of v \<noteq> []) (visualVariables (createRenderer year))) = 1"
  by (simp add: color_ramp_def createRenderer_def Math_floor_def)

theorem createRenderer_color_ramp_witness:
  "map cs_label (color_ramp (createRenderer 1984.5)) = [''in 1984'', ''in 1974'', ''before 1964'']
   \<and> map cs_value (color_ramp (createRenderer 1984.5)) = [1984.5, 1974.5, 1964.5]"
  using createRenderer_color_ramp [of "1984.5"]
  by (simp add: string_of_int_def string_of_nat.simps digit_def)

section \<open>Properties of the animation\<close>

lemma frame_animating [simp]: "animating (frame a) = animating a"
  by (simp add: frame_def Let_def)

lemma frame_funpow_animating [simp]: "animating ((frame ^^ n) a) = animating a"
  by (induction n) simp_all

lemma frame_value:
  "animating a \<Longrightarrow>
   anim_value (frame a) = (if anim_value a + 1 / 2 > 2017 then 1880 else anim_value a + 1 / 2)"
  by (simp add: frame_def Let_def)

lemma frame_funpow_linear:
  "animating a \<Longrightarrow> (\<forall>k. 1 \<le> k \<and> k \<le> n \<longrightarrow> anim_value a + real k / 2 \<le> 2017) \<Longrightarrow>
   anim_value ((frame ^^ n) a) = anim_value a + real n / 2"
proof (induction n)
  case 0
  then show ?case by simp
next
  case (Suc n)
  have prev: "anim_value ((frame ^^ n) a) = anim_value a + real n / 2"
    using Suc.IH Suc.prems by simp
  have "anim_value a + real (Suc n) / 2 \<le> 2017"
    using Suc.prems(2) [rule_format, of "Suc n"] by simp
  then have "\<not> anim_value ((frame ^^ n) a) + 1 / 2 > 2017"
    using prev by (simp add: field_simps)
  then show ?case
    using prev Suc.prems(1) by (simp add: frame_value field_simps)
qed

text \<open>
  C1. A tick (a call of \<open>frame\<close> while the animation runs) adds one half to the tracked
  value and, if the sum is above 2017, replaces it by 1880. So \<open>n\<close> ticks from \<open>v0\<close> give
  \<open>v0 + n / 2\<close> as long as none of the sums \<open>v0 + k / 2\<close>, \<open>1 \<le> k \<le> n\<close>, is above 2017, and
  a tick whose sum is above 2017 gives 1880.
\<close>

theorem frame_tick_arithmetic:
  "animating a \<Longrightarrow>
   anim_value (frame a) = (if anim_value a + 1 / 2 > 2017 then 1880 else anim_value a + 1 / 2)
   \<and> (anim_value a + 1 / 2 > 2017 \<longrightarrow> anim_value (frame a) = 1880)
   \<and> ((\<forall>k. 1 \<le> k \<and> k \<le> n \<longrightarrow> anim_value a + real k / 2 \<le> 2017) \<longrightarrow>
        anim_value ((frame ^^ n) a) = anim_value a + real n / 2)"
  using frame_value [of a] frame_funpow_linear [of a n] by simp

theorem frame_tick_arithmetic_witness:
  "animating (animate 2016 initial_page)
   \<and> anim_value (animate 2016 initial_page) = 2016.5
   \<and> anim_value (frame (animate 2016 initial_page)) = 2017
   \<and> anim_value ((frame ^^ 1) (animate 2016 initial_page)) = 2016.5 + 1 / 2
   \<and> anim_value (frame (frame (animate 2016 initial_page))) = 1880"
  using frame_tick_arithmetic [of "animate 2016 initial_page" 1]
    frame_tick_arithmetic [of "frame (animate 2016 initial_page)" 0]
  by (simp add: animate_def frame_def Let_def)

lemma frame_le_2017: "animating a \<Longrightarrow> anim_value (frame a) \<le> 2017"
  by (simp add: frame_value)

lemma frame_ge_1880:
  "animating a \<Longrightarrow> 1879.5 \<le> anim_value a \<Longrightarrow> 1880 \<le> anim_value (frame a)"
  by (simp add: frame_value)

lemma animate_eq_frame:
  "\<exists>a. animating a \<and> anim_value a = v \<and> animate v p = frame a"
  by (rule exI [of _ "\<lparr>animating = True, anim_value = v, scheduled = 0,
        setYear_calls = [], anim_page = p\<rparr>"]) (simp add: animate_def)

lemma animate_animating [simp]: "animating (animate v p)"
  by (simp add: animate_def)

lemma frame_funpow_Suc_le_2017:
  "animating a \<Longrightarrow> anim_value ((frame ^^ Suc n) a) \<le> 2017"
  by (simp add: frame_le_2017)

lemma frame_funpow_Suc_ge_1880:
  "animating a \<Longrightarrow> 1879.5 \<le> anim_value a \<Longrightarrow> 1880 \<le> anim_value ((frame ^^ Suc n) a)"
proof (induction n)
  case 0
  then show ?case by (simp add: frame_ge_1880)
next
  case (Suc n)
  then have "1880 \<le> anim_value ((frame ^^ Suc n) a)" by simp
  then have "1879.5 \<le> anim_value ((frame ^^ Suc n) a)" by simp
  moreover have "animating ((frame ^^ Suc n) a)" using Suc.prems(1) by simp
  ultimately have "1880 \<le> anim_value (frame ((frame ^^ Suc n) a))"
    by (rule frame_ge_1880 [rotated])
  then show ?case by simp
qed

text \<open>
  C10. After every tick the tracked value is at most 2017. \<open>animate\<close> runs the first tick
  itself; started from a value above 2017, that tick gives 1880. From a start value of at
  least 1879.5, the value lies between 1880 and 2017 after the first tick and after every
  later one.
\<close>

theorem animation_value_bounds:
  "(animating a \<longrightarrow> anim_value (frame a) \<le> 2017)
   \<and> anim_value ((frame ^^ n) (animate v p)) \<le> 2017
   \<and> (2017 < v \<longrightarrow> anim_value (animate v p) = 1880)
   \<and> (1879.5 \<le> v \<longrightarrow> 1880 \<le> anim_value ((frame ^^ n) (animate v p)))"
proof -
  obtain b where b: "animating b" "anim_value b = v" "animate v p = frame b"
    using animate_eq_frame by blast
  have iter: "(frame ^^ n) (animate v p) = (frame ^^ Suc n) b"
    using b(3) by (simp add: funpow_swap1)
  have "anim_value ((frame ^^ n) (animate v p)) \<le> 2017"
    unfolding iter using b(1) by (rule frame_funpow_Suc_le_2017)
  moreover have "2017 < v \<longrightarrow> anim_value (animate v p) = 1880"
    using b by (simp add: frame_value)
  moreover have "1879.5 \<le> v \<longrightarrow> 1880 \<le> anim_value ((frame ^^ n) (animate v p))"
    unfolding iter using b(1,2) frame_funpow_Suc_ge_1880 [of b n] by simp
  ultimately show ?thesis
    by (simp add: frame_le_2017)
qed

theorem animation_value_bounds_witness:
  "animating (animate 2022 initial_page)
   \<and> anim_value (frame (animate 2022 initial_page)) \<le> 2017
   \<and> anim_value ((frame ^^ 3) (animate 2022 initial_page)) \<le> 2017
   \<and> (2017::real) < 2022 \<and> anim_value (animate 2022 initial_page) = 1880
   \<and> (1879.5::real) \<le> 2022 \<and> 1880 \<le> anim_value ((frame ^^ 3) (animate 2022 initial_page))"
  using animation_value_bounds [of "animate 2022 initial_page" 3 2022 initial_page]
  by simp

lemma fire_stopped:
  "\<not> animating a \<Longrightarrow>
   \<not> animating (fire a) \<and> setYear_calls (fire a) = setYear_calls a
   \<and> anim_value (fire a) = anim_value a \<and> anim_page (fire a) = anim_page a
   \<and> scheduled (fire a) \<le> scheduled a"
  by (simp add: fire_def frame_def)

lemma fire_funpow_stopped:
  "\<not> animating a \<Longrightarrow>
   \<not> animating ((fire ^^ n) a) \<and> setYear_calls ((fire ^^ n) a) = setYear_calls a
   \<and> anim_value ((fire ^^ n) a) = anim_value a \<and> anim_page ((fire ^^ n) a) = anim_page a
   \<and> scheduled ((fire ^^ n) a) \<le> scheduled a"
proof (induction n)
  case 0
  then show ?case by simp
next
  case (Suc n)
  then have stopped: "\<not> animating ((fire ^^ n) a)" by simp
  show ?case
    using fire_stopped [OF stopped] Suc by simp
qed

text \<open>
  C6. Once \<open>remove\<close> has cleared the flag, a call of \<open>frame\<close> does nothing, and however
  many scheduled ticks come due afterwards, none calls \<open>setYear\<close>, changes the tracked
  value, writes to the page or schedules a tick. So when \<open>remove\<close> follows \<open>animate\<close> at once, no call of
  \<open>setYear\<close> is added to the one that \<open>animate\<close> made itself, which is within the bound
  of one further call.
\<close>

theorem remove_cancels_ticks:
  "frame (remove_handle a) = remove_handle a
   \<and> setYear_calls ((fire ^^ n) (remove_handle a)) = setYear_calls a
   \<and> anim_value ((fire ^^ n) (remove_handle a)) = anim_value a
   \<and> anim_page ((fire ^^ n) (remove_handle a)) = anim_page a
   \<and> scheduled ((fire ^^ n) (remove_handle a)) \<le> scheduled a
   \<and> setYear_calls ((fire ^^ n) (remove_handle (animate v p))) = setYear_calls (animate v p)
   \<and> length (setYear_calls ((fire ^^ n) (remove_handle (animate v p))))
       \<le> length (setYear_calls (remove_handle (animate v p))) + 1"
proof -
  have stopped: "\<not> animating (remove_handle b)" for b
    by (simp add: remove_handle_def)
  have same: "setYear_calls (remove_handle b) = setYear_calls b
      \<and> anim_value (remove_handle b) = anim_value b \<and> anim_page (remove_handle b) = anim_page b
      \<and> scheduled (remove_handle b) = scheduled b" for b
    by (simp add: remove_handle_def)
  have "frame (remove_handle a) = remove_handle a"
    by (simp add: frame_def remove_handle_def)
  then show ?thesis
    using fire_funpow_stopped [OF stopped, of n a]
      fire_funpow_stopped [OF stopped, of n "animate v p"] same [of a] same [of "animate v p"]
    by simp
qed

section \<open>Properties of the tooltip\<close>

lemma move_frame:
  "targetX (move t) = targetX t \<and> targetY (move t) = targetY t \<and> visible (move t) = visible t
   \<and> style_opacity (move t) = style_opacity t \<and> innerHTML (move t) = innerHTML t"
  by (simp add: move_def Let_def)

lemma move_position:
  "x (move t) =
     (if \<bar>targetX t - (x t + (targetX t - x t) / 10)\<bar> < 1
         \<and> \<bar>targetY t - (y t + (targetY t - y t) / 10)\<bar> < 1
      then targetX t else x t + (targetX t - x t) / 10)
   \<and> y (move t) =
     (if \<bar>targetX t - (x t + (targetX t - x t) / 10)\<bar> < 1
         \<and> \<bar>targetY t - (y t + (targetY t - y t) / 10)\<bar> < 1
      then targetY t else y t + (targetY t - y t) / 10)
   \<and> frame_requests (move t) =
     (if \<bar>targetX t - (x t + (targetX t - x t) / 10)\<bar> < 1
         \<and> \<bar>targetY t - (y t + (targetY t - y t) / 10)\<bar> < 1
      then frame_requests t else frame_requests t + 1)"
  by (simp add: move_def Let_def)

text \<open>
  C7. \<open>hide\<close> sets the opacity to 0 and clears the visible flag, and changes nothing
  else: the position, the target and the text stay as they were (as do the transform and
  the requested frames). A later \<open>show\<close> finds the tooltip hidden and puts it at its
  point at once.
\<close>

theorem hide_frame_effect:
  "style_opacity (hide t) = ''0'' \<and> \<not> visible (hide t)
   \<and> x (hide t) = x t \<and> y (hide t) = y t
   \<and> targetX (hide t) = targetX t \<and> targetY (hide t) = targetY t
   \<and> innerHTML (hide t) = innerHTML t
   \<and> style_transform (hide t) = style_transform t
   \<and> frame_requests (hide t) = frame_requests t
   \<and> x (show_tooltip p txt (hide t)) = point_x p
   \<and> y (show_tooltip p txt (hide t)) = point_y p"
  by (simp add: hide_def show_tooltip_def move_position)

text \<open>
  C5, as the code has it. \<open>show\<close> on a hidden tooltip puts the position and the target at
  the point; the tooltip is then visible with opacity 1. \<open>show\<close> on a visible tooltip
  does not assign the position: it sets the target to the point and runs the first
  easing step at once, so on return the position is the previous one moved a tenth of
  the way to the point (the point itself if less than one pixel then remains on both
  axes). In both cases the text is the given one.
\<close>

theorem show_tooltip_state_machine:
  "(\<not> visible t \<longrightarrow>
      x (show_tooltip p txt t) = point_x p \<and> y (show_tooltip p txt t) = point_y p)
   \<and> (visible t \<longrightarrow>
      show_tooltip p txt t =
        move (t\<lparr>targetX := point_x p, targetY := point_y p, style_opacity := ''1'',
                 visible := True, innerHTML := txt\<rparr>)
      \<and> x (show_tooltip p txt t) =
          (if \<bar>point_x p - (x t + (point_x p - x t) / 10)\<bar> < 1
              \<and> \<bar>point_y p - (y t + (point_y p - y t) / 10)\<bar> < 1
           then point_x p else x t + (point_x p - x t) / 10)
      \<and> y (show_tooltip p txt t) =
          (if \<bar>point_x p - (x t + (point_x p - x t) / 10)\<bar> < 1
              \<and> \<bar>point_y p - (y t + (point_y p - y t) / 10)\<bar> < 1
           then point_y p else y t + (point_y p - y t) / 10))
   \<and> targetX (show_tooltip p txt t) = point_x p
   \<and> targetY (show_tooltip p txt t) = point_y p
   \<and> visible (show_tooltip p txt t)
   \<and> style_opacity (show_tooltip p txt t) = ''1''
   \<and> innerHTML (show_tooltip p txt t) = txt"
  by (simp add: show_tooltip_def move_position move_frame)

theorem show_tooltip_state_machine_witness:
  "\<not> visible createTooltip
   \<and> x (show_tooltip \<lparr>point_x = 40, point_y = 30\<rparr> ''a'' createTooltip) = 40
   \<and> y (show_tooltip \<lparr>point_x = 40, point_y = 30\<rparr> ''a'' createTooltip) = 30
   \<and> visible (show_tooltip \<lparr>point_x = 40, point_y = 30\<rparr> ''a'' createTooltip)
   \<and> x (show_tooltip \<lparr>point_x = 140, point_y = 30\<rparr> ''b''
          (show_tooltip \<lparr>point_x = 40, point_y = 30\<rparr> ''a'' createTooltip)) = 50
   \<and> y (show_tooltip \<lparr>point_x = 140, point_y = 30\<rparr> ''b''
          (show_tooltip \<lparr>point_x = 40, point_y = 30\<rparr> ''a'' createTooltip)) = 30
   \<and> targetX (show_tooltip \<lparr>point_x = 140, point_y = 30\<rparr> ''b''
          (show_tooltip \<lparr>point_x = 40, point_y = 30\<rparr> ''a'' createTooltip)) = 140
   \<and> innerHTML (show_tooltip \<lparr>point_x = 140, point_y = 30\<rparr> ''b''
          (show_tooltip \<lparr>point_x = 40, point_y = 30\<rparr> ''a'' createTooltip)) = ''b''"
  using show_tooltip_state_machine [of createTooltip "\<lparr>point_x = 40, point_y = 30\<rparr>" "''a''"]
    show_tooltip_state_machine [of "show_tooltip \<lparr>point_x = 40, point_y = 30\<rparr> ''a'' createTooltip"
      "\<lparr>point_x = 140, point_y = 30\<rparr>" "''b''"]
  by (simp add: createTooltip_def show_tooltip_def move_position move_frame)

text \<open>
  The claim C5 as it is written fails: a visible tooltip at \<open>(0, 0)\<close> that is shown at
  \<open>(100, 0)\<close> is at \<open>(10, 0)\<close> when \<open>show\<close> returns, not at its previous position.
\<close>

theorem show_tooltip_visible_counterexample:
  "visible (show_tooltip \<lparr>point_x = 0, point_y = 0\<rparr> ''a'' createTooltip)
   \<and> x (show_tooltip \<lparr>point_x = 0, point_y = 0\<rparr> ''a'' createTooltip) = 0
   \<and> x (show_tooltip \<lparr>point_x = 100, point_y = 0\<rparr> ''b''
          (show_tooltip \<lparr>point_x = 0, point_y = 0\<rparr> ''a'' createTooltip)) = 10
   \<and> x (show_tooltip \<lparr>point_x = 100, point_y = 0\<rparr> ''b''
          (show_tooltip \<lparr>point_x = 0, point_y = 0\<rparr> ''a'' createTooltip))
       \<noteq> x (show_tooltip \<lparr>point_x = 0, point_y = 0\<rparr> ''a'' createTooltip)"
  by (simp add: show_tooltip_def move_position move_frame createTooltip_def)

section \<open>Properties of the hover handler\<close>

text \<open>
  C9. When the hit test rejects, the handler returns a resolved promise and the state of
  the highlight and of the tooltip is the one before; a rejection of \<open>view.hitTest\<close>
  reaches the handler as a rejection.
\<close>

theorem pointer_move_rejected:
  "pointer_move (Rejected e) h = (Resolved (), h)
   \<and> hitTest layer (Rejected e) = Rejected e
   \<and> pointer_move (hitTest layer (Rejected e)) h = (Resolved (), h)
   \<and> highlight (snd (pointer_move (Rejected e) h)) = highlight h
   \<and> applied (snd (pointer_move (Rejected e) h)) = applied h
   \<and> tip (snd (pointer_move (Rejected e) h)) = tip h"
  by (simp add: pointer_move_def hitTest_def)

section \<open>The easing loop of the tooltip\<close>

lemma within_real:
  fixes a b :: real
  shows "(\<bar>a * (9 / 10)\<bar> < 1 \<and> \<bar>b * (9 / 10)\<bar> < 1) \<longleftrightarrow> max \<bar>a\<bar> \<bar>b\<bar> * (9 / 10) < 1"
  by (cases "\<bar>a\<bar> \<le> \<bar>b\<bar>"; linarith)

lemma max_scaled:
  fixes a b c :: real
  assumes "0 \<le> c"
  shows "max \<bar>a * c\<bar> \<bar>b * c\<bar> = max \<bar>a\<bar> \<bar>b\<bar> * c"
proof -
  have "\<bar>a * c\<bar> = \<bar>a\<bar> * c" "\<bar>b * c\<bar> = \<bar>b\<bar> * c"
    using assms by (simp_all add: abs_mult)
  then show ?thesis
    using assms by (simp add: max_mult_distrib_right)
qed

lemma tenth_step:
  fixes c d :: real
  shows "d - (c + (d - c) / 10) = (d - c) * (9 / 10)"
  by (simp add: field_simps)

lemma tenth_step':
  fixes c d :: real
  shows "c + (d - c) / 10 = d - (d - c) * (9 / 10)"
  by (simp add: field_simps)


lemma gap_nonneg: "0 \<le> gap t"
  by (simp add: gap_def)

lemma gap_request: "gap (t\<lparr>frame_requests := r\<rparr>) = gap t"
  by (simp add: gap_def)

lemma within_iff:
  "\<bar>targetX t - (x t + (targetX t - x t) / 10)\<bar> < 1
     \<and> \<bar>targetY t - (y t + (targetY t - y t) / 10)\<bar> < 1
   \<longleftrightarrow> gap t * (9 / 10) < 1"
  unfolding tenth_step gap_def by (rule within_real)

lemma move_snap:
  assumes "gap t * (9 / 10) < 1"
  shows "x (move t) = targetX t \<and> y (move t) = targetY t
    \<and> frame_requests (move t) = frame_requests t"
  using assms move_position [of t, unfolded within_iff] by simp

lemma move_ease:
  assumes "1 \<le> gap t * (9 / 10)"
  shows "x (move t) = targetX t - (targetX t - x t) * (9 / 10)
    \<and> y (move t) = targetY t - (targetY t - y t) * (9 / 10)
    \<and> frame_requests (move t) = frame_requests t + 1"
proof -
  have "\<not> gap t * (9 / 10) < 1" using assms by simp
  then show ?thesis
    using move_position [of t, unfolded within_iff] by (simp add: tenth_step')
qed

lemma gap_scaled:
  assumes "targetX s - x s = (targetX t - x t) * c" "targetY s - y s = (targetY t - y t) * c"
    "0 \<le> c"
  shows "gap s = gap t * c"
  unfolding gap_def assms(1,2) using assms(3) by (rule max_scaled)

lemma ease_funpow:
  assumes "1 \<le> gap t * (9 / 10) ^ Suc n"
  shows "x ((animation_frame ^^ n) (move t)) = targetX t - (targetX t - x t) * (9 / 10) ^ Suc n
    \<and> y ((animation_frame ^^ n) (move t)) = targetY t - (targetY t - y t) * (9 / 10) ^ Suc n
    \<and> targetX ((animation_frame ^^ n) (move t)) = targetX t
    \<and> targetY ((animation_frame ^^ n) (move t)) = targetY t
    \<and> frame_requests ((animation_frame ^^ n) (move t)) = frame_requests t + 1"
  using assms
proof (induction n)
  case 0
  then show ?case using move_ease [of t] move_frame [of t] by simp
next
  case (Suc n)
  define s where "s = (animation_frame ^^ n) (move t)"
  have "gap t * (9 / 10) ^ Suc (Suc n) \<le> gap t * (9 / 10) ^ Suc n"
    using gap_nonneg [of t] by (simp add: mult_left_mono)
  then have "1 \<le> gap t * (9 / 10) ^ Suc n"
    using Suc.prems by linarith
  then have s: "x s = targetX t - (targetX t - x t) * (9 / 10) ^ Suc n"
    "y s = targetY t - (targetY t - y t) * (9 / 10) ^ Suc n"
    "targetX s = targetX t" "targetY s = targetY t" "frame_requests s = frame_requests t + 1"
    using Suc.IH by (simp_all add: s_def)
  define s' where "s' = s\<lparr>frame_requests := frame_requests s - 1\<rparr>"
  have s': "x s' = x s" "y s' = y s" "targetX s' = targetX t" "targetY s' = targetY t"
    "frame_requests s' = frame_requests t"
    by (simp_all add: s'_def s)
  have "gap s' = gap t * (9 / 10) ^ Suc n"
    by (rule gap_scaled) (simp_all only: s' s, simp_all)
  then have "1 \<le> gap s' * (9 / 10)"
    using Suc.prems by simp
  from move_ease [OF this] move_frame [of s']
  have "x (move s') = targetX t - (targetX t - x t) * (9 / 10) ^ Suc (Suc n)
    \<and> y (move s') = targetY t - (targetY t - y t) * (9 / 10) ^ Suc (Suc n)
    \<and> targetX (move s') = targetX t \<and> targetY (move s') = targetY t
    \<and> frame_requests (move s') = frame_requests t + 1"
    by (simp add: s' s)
  moreover have "(animation_frame ^^ Suc n) (move t) = move s'"
    by (simp add: s_def [symmetric] animation_frame_def s s'_def)
  ultimately show ?case by (simp only:)
qed

lemma snap_funpow:
  assumes "1 \<le> gap t * (9 / 10) ^ Suc n" "gap t * (9 / 10) ^ Suc (Suc n) < 1"
  shows "x ((animation_frame ^^ Suc n) (move t)) = targetX t
    \<and> y ((animation_frame ^^ Suc n) (move t)) = targetY t
    \<and> targetX ((animation_frame ^^ Suc n) (move t)) = targetX t
    \<and> targetY ((animation_frame ^^ Suc n) (move t)) = targetY t
    \<and> frame_requests ((animation_frame ^^ Suc n) (move t)) = frame_requests t"
proof -
  define s where "s = (animation_frame ^^ n) (move t)"
  have s: "x s = targetX t - (targetX t - x t) * (9 / 10) ^ Suc n"
    "y s = targetY t - (targetY t - y t) * (9 / 10) ^ Suc n"
    "targetX s = targetX t" "targetY s = targetY t" "frame_requests s = frame_requests t + 1"
    using ease_funpow [OF assms(1)] by (simp_all add: s_def)
  define s' where "s' = s\<lparr>frame_requests := frame_requests s - 1\<rparr>"
  have s': "x s' = x s" "y s' = y s" "targetX s' = targetX t" "targetY s' = targetY t"
    "frame_requests s' = frame_requests t"
    by (simp_all add: s'_def s)
  have "gap s' = gap t * (9 / 10) ^ Suc n"
    by (rule gap_scaled) (simp_all only: s' s, simp_all)
  then have "gap s' * (9 / 10) < 1"
    using assms(2) by simp
  from move_snap [OF this] move_frame [of s']
  have "x (move s') = targetX t \<and> y (move s') = targetY t
    \<and> targetX (move s') = targetX t \<and> targetY (move s') = targetY t
    \<and> frame_requests (move s') = frame_requests t"
    by (simp add: s')
  moreover have "(animation_frame ^^ Suc n) (move t) = move s'"
    by (simp add: s_def [symmetric] animation_frame_def s s'_def)
  ultimately show ?thesis by (simp only:)
qed

lemma animation_frame_idle: "frame_requests t = 0 \<Longrightarrow> (animation_frame ^^ k) t = t"
  by (induction k) (simp_all add: animation_frame_def)

lemma run_frames_funpow:
  "frame_requests ((animation_frame ^^ n) t) = 0 \<Longrightarrow>
   run_frames t = Some ((animation_frame ^^ n) t)"
proof (induction n arbitrary: t)
  case 0
  then show ?case by (simp add: run_frames.simps)
next
  case (Suc n)
  show ?case
  proof (cases "frame_requests t = 0")
    case True
    have "run_frames t = Some t"
      using True by (subst run_frames.simps) simp
    then show ?thesis
      by (simp only: animation_frame_idle [OF True])
  next
    case False
    have swap: "(animation_frame ^^ Suc n) t = (animation_frame ^^ n) (animation_frame t)"
      by (simp add: funpow_swap1)
    then have "frame_requests ((animation_frame ^^ n) (animation_frame t)) = 0"
      using Suc.prems by simp
    then have "run_frames (animation_frame t) = Some ((animation_frame ^^ n) (animation_frame t))"
      by (rule Suc.IH)
    moreover have "run_frames t = run_frames (animation_frame t)"
      using False by (subst run_frames.simps) (simp add: animation_frame_def)
    ultimately show ?thesis using swap by simp
  qed
qed


lemma gap_zero: "gap t = 0 \<longleftrightarrow> x t = targetX t \<and> y t = targetY t"
  unfolding gap_def by (cases "\<bar>targetX t - x t\<bar> \<le> \<bar>targetY t - y t\<bar>"; simp add: max_def; linarith)

lemma move_gap:
  "gap (move t) = (if gap t * (9 / 10) < 1 then 0 else gap t * (9 / 10))"
proof (cases "gap t * (9 / 10) < 1")
  case True
  then show ?thesis
    using move_snap [OF True] move_frame [of t] by (simp add: gap_zero)
next
  case False
  then have ease: "1 \<le> gap t * (9 / 10)" by simp
  have "gap (move t) = gap t * (9 / 10)"
    by (rule gap_scaled) (simp_all add: move_ease [OF ease] move_frame)
  then show ?thesis using False by simp
qed

lemma run_frames_idle:
  assumes "frame_requests t = 0"
  shows "run_frames t = Some t"
  using assms by (subst run_frames.simps) simp

lemma run_frames_step:
  assumes "frame_requests t \<noteq> 0"
  shows "run_frames t = run_frames (move (t\<lparr>frame_requests := frame_requests t - 1\<rparr>))"
  using assms by (subst run_frames.simps) simp

lemma run_frames_bounded:
  "n + frame_requests t = k \<Longrightarrow> gap t * (9 / 10) ^ Suc n < 1 \<Longrightarrow>
   \<exists>t'. run_frames t = Some t' \<and> frame_requests t' = 0
     \<and> targetX t' = targetX t \<and> targetY t' = targetY t
     \<and> (0 < frame_requests t \<or> gap t = 0 \<longrightarrow> x t' = targetX t \<and> y t' = targetY t)"
proof (induction k arbitrary: t n)
  case 0
  then have "frame_requests t = 0" by simp
  then show ?case
    using run_frames_idle [of t] by (simp add: gap_zero)
next
  case (Suc k)
  show ?case
  proof (cases "frame_requests t = 0")
    case True
    then show ?thesis
      using run_frames_idle [of t] by (simp add: gap_zero)
  next
    case False
    define s where "s = t\<lparr>frame_requests := frame_requests t - 1\<rparr>"
    have s: "gap s = gap t" "targetX s = targetX t" "targetY s = targetY t"
      "frame_requests s = frame_requests t - 1"
      by (simp_all add: s_def gap_def)
    have run: "run_frames t = run_frames (move s)"
      unfolding s_def using False by (rule run_frames_step)
    show ?thesis
    proof (cases "gap s * (9 / 10) < 1")
      case True
      have m: "x (move s) = targetX t" "y (move s) = targetY t"
        "frame_requests (move s) = frame_requests t - 1"
        "targetX (move s) = targetX t" "targetY (move s) = targetY t"
        using move_snap [OF True] move_frame [of s] by (simp_all add: s)
      have g0: "gap (move s) = 0"
        by (simp add: gap_zero m)
      have "n + frame_requests (move s) = k"
        using Suc.prems(1) False by (simp add: m)
      moreover have "gap (move s) * (9 / 10) ^ Suc n < 1"
        by (simp add: g0)
      ultimately obtain t' where "run_frames (move s) = Some t'" "frame_requests t' = 0"
        "targetX t' = targetX (move s)" "targetY t' = targetY (move s)"
        "0 < frame_requests (move s) \<or> gap (move s) = 0 \<longrightarrow>
           x t' = targetX (move s) \<and> y t' = targetY (move s)"
        using Suc.IH [of n "move s"] by blast
      then show ?thesis
        using run g0 by (simp add: m)
    next
      case no_snap: False
      then have ease: "1 \<le> gap s * (9 / 10)" by simp
      have m: "frame_requests (move s) = frame_requests t"
        "targetX (move s) = targetX t" "targetY (move s) = targetY t"
        using move_ease [OF ease] move_frame [of s] False by (simp_all add: s)
      have g: "gap (move s) = gap t * (9 / 10)"
        using move_gap [of s] no_snap by (simp add: s)
      obtain m' where n: "n = Suc m'"
        using Suc.prems(2) ease by (cases n) (simp_all add: s)
      have "m' + frame_requests (move s) = k"
        using Suc.prems(1) by (simp add: m n)
      moreover have "gap (move s) * (9 / 10) ^ Suc m' < 1"
        using Suc.prems(2) by (simp add: g n mult.assoc)
      ultimately obtain t' where "run_frames (move s) = Some t'" "frame_requests t' = 0"
        "targetX t' = targetX (move s)" "targetY t' = targetY (move s)"
        "0 < frame_requests (move s) \<or> gap (move s) = 0 \<longrightarrow>
           x t' = targetX (move s) \<and> y t' = targetY (move s)"
        using Suc.IH [of m' "move s"] by blast
      then show ?thesis
        using run False by (simp add: m)
    qed
  qed
qed

lemma gap_shrinks: "\<exists>n. gap t * (9 / 10) ^ Suc n < 1"
proof (cases "gap t = 0")
  case True
  then show ?thesis by simp
next
  case False
  then have pos: "0 < gap t" using gap_nonneg [of t] by simp
  then have "0 < 1 / gap t" by simp
  then obtain n where n: "(9 / 10 :: real) ^ n < 1 / gap t"
    using real_arch_pow_inv [of "1 / gap t" "9 / 10"] by auto
  then have "gap t * (9 / 10) ^ n < 1"
    using pos by (simp add: field_simps)
  moreover have "gap t * (9 / 10) ^ Suc n \<le> gap t * (9 / 10) ^ n"
    using pos by (simp add: mult_left_mono)
  ultimately have "gap t * (9 / 10) ^ Suc n < 1" by linarith
  then show ?thesis ..
qed

lemma run_frames_terminates:
  "\<exists>t'. run_frames t = Some t' \<and> frame_requests t' = 0
     \<and> targetX t' = targetX t \<and> targetY t' = targetY t
     \<and> (0 < frame_requests t \<or> gap t = 0 \<longrightarrow> x t' = targetX t \<and> y t' = targetY t)"
proof -
  obtain n where "gap t * (9 / 10) ^ Suc n < 1"
    using gap_shrinks by blast
  then show ?thesis
    by (rule run_frames_bounded [OF refl])
qed

lemma move_requested_or_there: "0 < frame_requests (move t) \<or> gap (move t) = 0"
  using move_gap [of t] move_ease [of t] by (cases "gap t * (9 / 10) < 1") simp_all

lemma easing_reaches_target:
  "\<exists>t'. run_frames (move t) = Some t' \<and> frame_requests t' = 0
     \<and> x t' = targetX t \<and> y t' = targetY t"
  using run_frames_terminates [of "move t"] move_requested_or_there [of t] move_frame [of t]
  by auto


text \<open>
  C2. A call of \<open>move\<close> moves the position a tenth of the distance left on each axis;
  if the distance left is then below one pixel on both axes, the position is set to the
  target and no frame is requested, otherwise one more frame is requested. The loop
  started by a call of \<open>move\<close> ends for every position and target, with the position
  exactly at the target and no frame requested; and the loop ends from every state. A
  visible tooltip at \<open>(0, 0)\<close> that is shown at \<open>(100, 0)\<close> still has a frame requested
  after 42 frames and is at \<open>(100, 0)\<close> after the 43rd, the 44th call of \<open>move\<close>.
\<close>

theorem easing_loop_terminates:
  "x (move t) =
     (if \<bar>targetX t - (x t + (targetX t - x t) / 10)\<bar> < 1
         \<and> \<bar>targetY t - (y t + (targetY t - y t) / 10)\<bar> < 1
      then targetX t else x t + (targetX t - x t) / 10)
   \<and> y (move t) =
     (if \<bar>targetX t - (x t + (targetX t - x t) / 10)\<bar> < 1
         \<and> \<bar>targetY t - (y t + (targetY t - y t) / 10)\<bar> < 1
      then targetY t else y t + (targetY t - y t) / 10)
   \<and> frame_requests (move t) =
     (if \<bar>targetX t - (x t + (targetX t - x t) / 10)\<bar> < 1
         \<and> \<bar>targetY t - (y t + (targetY t - y t) / 10)\<bar> < 1
      then frame_requests t else frame_requests t + 1)
   \<and> (\<exists>t'. run_frames (move t) = Some t' \<and> frame_requests t' = 0
          \<and> x t' = targetX t \<and> y t' = targetY t)
   \<and> (\<exists>t'. run_frames t = Some t' \<and> frame_requests t' = 0)
   \<and> frame_requests ((animation_frame ^^ 42)
        (show_tooltip \<lparr>point_x = 100, point_y = 0\<rparr> txt'
          (show_tooltip \<lparr>point_x = 0, point_y = 0\<rparr> txt createTooltip))) = 1
   \<and> run_frames (show_tooltip \<lparr>point_x = 100, point_y = 0\<rparr> txt'
          (show_tooltip \<lparr>point_x = 0, point_y = 0\<rparr> txt createTooltip))
       = Some ((animation_frame ^^ 43)
          (show_tooltip \<lparr>point_x = 100, point_y = 0\<rparr> txt'
            (show_tooltip \<lparr>point_x = 0, point_y = 0\<rparr> txt createTooltip)))
   \<and> x ((animation_frame ^^ 43)
        (show_tooltip \<lparr>point_x = 100, point_y = 0\<rparr> txt'
          (show_tooltip \<lparr>point_x = 0, point_y = 0\<rparr> txt createTooltip))) = 100
   \<and> y ((animation_frame ^^ 43)
        (show_tooltip \<lparr>point_x = 100, point_y = 0\<rparr> txt'
          (show_tooltip \<lparr>point_x = 0, point_y = 0\<rparr> txt createTooltip))) = 0"
proof -
  define t1 where "t1 = show_tooltip \<lparr>point_x = 0, point_y = 0\<rparr> txt createTooltip"
  define t2 where "t2 = t1\<lparr>targetX := 100, targetY := 0, style_opacity := ''1'',
    visible := True, innerHTML := txt'\<rparr>"
  have t1: "visible t1" "x t1 = 0" "y t1 = 0" "frame_requests t1 = 0"
    by (simp_all add: t1_def show_tooltip_def move_position move_frame createTooltip_def)
  have shown: "show_tooltip \<lparr>point_x = 100, point_y = 0\<rparr> txt' t1 = move t2"
    using t1(1) by (simp add: show_tooltip_def t2_def)
  have t2: "x t2 = 0" "y t2 = 0" "targetX t2 = 100" "targetY t2 = 0" "frame_requests t2 = 0"
    by (simp_all add: t2_def t1)
  have g: "gap t2 = 100"
    by (simp add: gap_def t2)
  have p43: "1 \<le> gap t2 * (9 / 10) ^ Suc 42"
    unfolding g by (simp add: power_divide)
  have p44: "gap t2 * (9 / 10) ^ Suc (Suc 42) < 1"
    unfolding g by (simp add: power_divide)
  have before: "frame_requests ((animation_frame ^^ 42) (move t2)) = 1"
    using ease_funpow [OF p43] by (simp add: t2)
  have after: "x ((animation_frame ^^ Suc 42) (move t2)) = 100"
    "y ((animation_frame ^^ Suc 42) (move t2)) = 0"
    "frame_requests ((animation_frame ^^ Suc 42) (move t2)) = 0"
    using snap_funpow [OF p43 p44] by (simp_all only: t2)
  have n43: "(43::nat) = Suc 42" by simp
  have run: "run_frames (move t2) = Some ((animation_frame ^^ Suc 42) (move t2))"
    using after(3) by (rule run_frames_funpow)
  have concrete:
    "frame_requests ((animation_frame ^^ 42)
        (show_tooltip \<lparr>point_x = 100, point_y = 0\<rparr> txt' t1)) = 1
     \<and> run_frames (show_tooltip \<lparr>point_x = 100, point_y = 0\<rparr> txt' t1)
         = Some ((animation_frame ^^ 43) (show_tooltip \<lparr>point_x = 100, point_y = 0\<rparr> txt' t1))
     \<and> x ((animation_frame ^^ 43) (show_tooltip \<lparr>point_x = 100, point_y = 0\<rparr> txt' t1)) = 100
     \<and> y ((animation_frame ^^ 43) (show_tooltip \<lparr>point_x = 100, point_y = 0\<rparr> txt' t1)) = 0"
    unfolding shown n43 using before after run by (simp only: simp_thms)
  have ends: "\<exists>t'. run_frames t = Some t' \<and> frame_requests t' = 0"
    using run_frames_terminates [of t] by blast
  show ?thesis
    using move_position [of t] easing_reaches_target [of t] ends concrete [unfolded t1_def]
    by (simp only: simp_thms)
qed

section \<open>The single highlight\<close>

lemma remove_current_clears:
  "highlight (remove_current h) = None \<and> tip (remove_current h) = tip h
   \<and> next_id (remove_current h) = next_id h"
  by (simp add: remove_current_def split: option.split)

lemma remove_current_applied:
  "single_highlight h \<Longrightarrow> applied (remove_current h) = []"
  by (simp add: remove_current_def single_highlight_def split: option.splits)

lemma pointer_move_found:
  "single_highlight h \<Longrightarrow>
   snd (pointer_move (Resolved (Some found)) h) =
     (remove_current h)
       \<lparr>highlight := Some \<lparr>handle_id = next_id h, handle_graphic = hit_graphic found\<rparr>,
        applied := [\<lparr>handle_id = next_id h, handle_graphic = hit_graphic found\<rparr>],
        next_id := next_id h + 1,
        tip := show_tooltip (hit_screenPoint found)
          (''Titled in '' @ ToString (getAttribute (hit_graphic found) ''CNSTRCT_YR''))
          (tip h)\<rparr>"
  using remove_current_clears [of h] remove_current_applied [of h]
  by (simp add: pointer_move_def layerview_highlight_def Let_def)

lemma pointer_move_missed:
  "single_highlight h \<Longrightarrow>
   snd (pointer_move (Resolved None) h) =
     (remove_current h)\<lparr>tip := hide (tip h)\<rparr>"
  using remove_current_clears [of h]
  by (simp add: pointer_move_def Let_def)

lemma pointer_move_single_highlight:
  assumes "single_highlight h"
  shows "single_highlight (snd (pointer_move outcome h))"
proof (cases outcome)
  case (Rejected e)
  then show ?thesis using assms by (simp add: pointer_move_def)
next
  case (Resolved hit)
  show ?thesis
  proof (cases hit)
    case None
    then show ?thesis
      using Resolved pointer_move_missed [OF assms] remove_current_clears [of h]
        remove_current_applied [OF assms]
      by (simp add: single_highlight_def)
  next
    case (Some found)
    then show ?thesis
      using Resolved pointer_move_found [OF assms, of found]
      by (simp add: single_highlight_def)
  qed
qed

lemma pointer_moves_single_highlight:
  "single_highlight h \<Longrightarrow> single_highlight (pointer_moves outcomes h)"
proof (induction outcomes arbitrary: h)
  case Nil
  then show ?case by (simp add: pointer_moves_def)
next
  case (Cons outcome outcomes)
  have "single_highlight (snd (pointer_move outcome h))"
    using Cons.prems by (rule pointer_move_single_highlight)
  then have "single_highlight (pointer_moves outcomes (snd (pointer_move outcome h)))"
    by (rule Cons.IH)
  then show ?case by (simp add: pointer_moves_def)
qed

lemma single_highlight_at_most_one: "single_highlight h \<Longrightarrow> length (applied h) \<le> 1"
  by (simp add: single_highlight_def split: option.splits)

lemma setupHoverTooltip_single_highlight: "single_highlight setupHoverTooltip"
  by (simp add: single_highlight_def setupHoverTooltip_def)

lemma show_tooltip_effect:
  "visible (show_tooltip p txt t) \<and> style_opacity (show_tooltip p txt t) = ''1''
   \<and> targetX (show_tooltip p txt t) = point_x p \<and> targetY (show_tooltip p txt t) = point_y p
   \<and> innerHTML (show_tooltip p txt t) = txt"
  by (simp add: show_tooltip_def move_frame)

lemma hide_effect:
  "\<not> visible (hide t) \<and> style_opacity (hide t) = ''0''
   \<and> x (hide t) = x t \<and> y (hide t) = y t
   \<and> targetX (hide t) = targetX t \<and> targetY (hide t) = targetY t
   \<and> innerHTML (hide t) = innerHTML t"
  by (simp add: hide_def)

text \<open>
  C8. In a state where the highlights applied are the stored one, if any, a resolved hit
  test first removes the stored highlight and clears the reference, so that none is
  applied. With a hit, exactly one highlight is then applied, on the graphic that was
  hit, and stored, and the tooltip is shown at the screen point of the hit with the text
  \<open>Titled in\<close> and the \<open>CNSTRCT_YR\<close> attribute of the graphic: it is visible with
  opacity 1, its target is that point and its text is that text. Without a hit, none is
  applied or stored and the tooltip is hidden: it is not visible, its opacity is 0, and
  its position, target and text are the ones before. The hit is the first result on the layer
  of interest, and there is none when no result is on that layer. The state after the
  handler is again of that kind, and so is every state reached from the initial one;
  there at most one highlight is applied.
\<close>

theorem pointer_move_highlights:
  assumes "single_highlight h"
  shows "highlight (remove_current h) = None \<and> applied (remove_current h) = []
    \<and> highlight (snd (pointer_move (Resolved (Some found)) h))
        = Some \<lparr>handle_id = next_id h, handle_graphic = hit_graphic found\<rparr>
    \<and> applied (snd (pointer_move (Resolved (Some found)) h))
        = [\<lparr>handle_id = next_id h, handle_graphic = hit_graphic found\<rparr>]
    \<and> tip (snd (pointer_move (Resolved (Some found)) h))
        = show_tooltip (hit_screenPoint found)
            (''Titled in '' @ ToString (getAttribute (hit_graphic found) ''CNSTRCT_YR''))
            (tip h)
    \<and> visible (tip (snd (pointer_move (Resolved (Some found)) h)))
    \<and> style_opacity (tip (snd (pointer_move (Resolved (Some found)) h))) = ''1''
    \<and> targetX (tip (snd (pointer_move (Resolved (Some found)) h)))
        = point_x (hit_screenPoint found)
    \<and> targetY (tip (snd (pointer_move (Resolved (Some found)) h)))
        = point_y (hit_screenPoint found)
    \<and> innerHTML (tip (snd (pointer_move (Resolved (Some found)) h)))
        = ''Titled in '' @ ToString (getAttribute (hit_graphic found) ''CNSTRCT_YR'')
    \<and> highlight (snd (pointer_move (Resolved None) h)) = None
    \<and> applied (snd (pointer_move (Resolved None) h)) = []
    \<and> tip (snd (pointer_move (Resolved None) h)) = hide (tip h)
    \<and> \<not> visible (tip (snd (pointer_move (Resolved None) h)))
    \<and> style_opacity (tip (snd (pointer_move (Resolved None) h))) = ''0''
    \<and> x (tip (snd (pointer_move (Resolved None) h))) = x (tip h)
    \<and> y (tip (snd (pointer_move (Resolved None) h))) = y (tip h)
    \<and> targetX (tip (snd (pointer_move (Resolved None) h))) = targetX (tip h)
    \<and> targetY (tip (snd (pointer_move (Resolved None) h))) = targetY (tip h)
    \<and> innerHTML (tip (snd (pointer_move (Resolved None) h))) = innerHTML (tip h)
    \<and> (filter (\<lambda>g. graphic_layer g = layer) (results hit) = g # gs \<longrightarrow>
         hitTest layer (Resolved hit)
           = Resolved (Some \<lparr>hit_graphic = g, hit_screenPoint = screenPoint hit\<rparr>))
    \<and> ((\<forall>g \<in> set (results hit). graphic_layer g \<noteq> layer) \<longrightarrow>
         hitTest layer (Resolved hit) = Resolved None)
    \<and> single_highlight (snd (pointer_move outcome h))
    \<and> length (applied (snd (pointer_move outcome h))) \<le> 1
    \<and> single_highlight (pointer_moves outcomes setupHoverTooltip)
    \<and> length (applied (pointer_moves outcomes setupHoverTooltip)) \<le> 1"
proof -
  have "filter (\<lambda>g. graphic_layer g = layer) (results hit) = []"
    if "\<forall>g \<in> set (results hit). graphic_layer g \<noteq> layer"
    using that by (simp add: filter_empty_conv)
  then have none: "(\<forall>g \<in> set (results hit). graphic_layer g \<noteq> layer) \<longrightarrow>
      hitTest layer (Resolved hit) = Resolved None"
    by (simp add: hitTest_def)
  have first: "filter (\<lambda>g. graphic_layer g = layer) (results hit) = g # gs \<longrightarrow>
      hitTest layer (Resolved hit)
        = Resolved (Some \<lparr>hit_graphic = g, hit_screenPoint = screenPoint hit\<rparr>)"
    by (simp add: hitTest_def)
  have kept: "single_highlight (snd (pointer_move outcome h))"
    using assms by (rule pointer_move_single_highlight)
  have reach: "single_highlight (pointer_moves outcomes setupHoverTooltip)"
    using setupHoverTooltip_single_highlight by (rule pointer_moves_single_highlight)
  show ?thesis
    using remove_current_clears [of h] remove_current_applied [OF assms]
      pointer_move_found [OF assms, of found] pointer_move_missed [OF assms]
      none first kept reach
      single_highlight_at_most_one [OF kept] single_highlight_at_most_one [OF reach]
      show_tooltip_effect hide_effect
    by simp
qed

theorem pointer_move_highlights_witness:
  "single_highlight (snd (pointer_move
        (Resolved (Some \<lparr>hit_graphic =
            \<lparr>graphic_layer = 7, attributes = [''CNSTRCT_YR'' \<mapsto> JSNumber 1984]\<rparr>,
          hit_screenPoint = \<lparr>point_x = 40, point_y = 30\<rparr>\<rparr>)) setupHoverTooltip))
   \<and> highlight (snd (pointer_move
        (Resolved (Some \<lparr>hit_graphic =
            \<lparr>graphic_layer = 7, attributes = [''CNSTRCT_YR'' \<mapsto> JSNumber 1984]\<rparr>,
          hit_screenPoint = \<lparr>point_x = 40, point_y = 30\<rparr>\<rparr>)) setupHoverTooltip))
      = Some \<lparr>handle_id = 0, handle_graphic = \<lparr>graphic_layer = 7, attributes = [''CNSTRCT_YR'' \<mapsto> JSNumber 1984]\<rparr>\<rparr>
   \<and> applied (snd (pointer_move
        (Resolved (Some \<lparr>hit_graphic =
            \<lparr>graphic_layer = 7, attributes = [''CNSTRCT_YR'' \<mapsto> JSNumber 1984]\<rparr>,
          hit_screenPoint = \<lparr>point_x = 40, point_y = 30\<rparr>\<rparr>)) setupHoverTooltip))
      = [\<lparr>handle_id = 0, handle_graphic = \<lparr>graphic_layer = 7, attributes = [''CNSTRCT_YR'' \<mapsto> JSNumber 1984]\<rparr>\<rparr>]
   \<and> visible (tip (snd (pointer_move
        (Resolved (Some \<lparr>hit_graphic =
            \<lparr>graphic_layer = 7, attributes = [''CNSTRCT_YR'' \<mapsto> JSNumber 1984]\<rparr>,
          hit_screenPoint = \<lparr>point_x = 40, point_y = 30\<rparr>\<rparr>)) setupHoverTooltip)))
   \<and> x (tip (snd (pointer_move
        (Resolved (Some \<lparr>hit_graphic =
            \<lparr>graphic_layer = 7, attributes = [''CNSTRCT_YR'' \<mapsto> JSNumber 1984]\<rparr>,
          hit_screenPoint = \<lparr>point_x = 40, point_y = 30\<rparr>\<rparr>)) setupHoverTooltip))) = 40
   \<and> innerHTML (tip (snd (pointer_move
        (Resolved (Some \<lparr>hit_graphic =
            \<lparr>graphic_layer = 7, attributes = [''CNSTRCT_YR'' \<mapsto> JSNumber 1984]\<rparr>,
          hit_screenPoint = \<lparr>point_x = 40, point_y = 30\<rparr>\<rparr>)) setupHoverTooltip))) = ''Titled in 1984''
   \<and> applied (remove_current (snd (pointer_move
        (Resolved (Some \<lparr>hit_graphic =
            \<lparr>graphic_layer = 7, attributes = [''CNSTRCT_YR'' \<mapsto> JSNumber 1984]\<rparr>,
          hit_screenPoint = \<lparr>point_x = 40, point_y = 30\<rparr>\<rparr>)) setupHoverTooltip))) = []
   \<and> highlight (remove_current (snd (pointer_move
        (Resolved (Some \<lparr>hit_graphic =
            \<lparr>graphic_layer = 7, attributes = [''CNSTRCT_YR'' \<mapsto> JSNumber 1984]\<rparr>,
          hit_screenPoint = \<lparr>point_x = 40, point_y = 30\<rparr>\<rparr>)) setupHoverTooltip))) = None
   \<and> applied (snd (pointer_move
        (Resolved (Some \<lparr>hit_graphic =
            \<lparr>graphic_layer = 7, attributes = [''CNSTRCT_YR'' \<mapsto> JSNumber 2001]\<rparr>,
          hit_screenPoint = \<lparr>point_x = 140, point_y = 30\<rparr>\<rparr>))
        (snd (pointer_move
        (Resolved (Some \<lparr>hit_graphic =
            \<lparr>graphic_layer = 7, attributes = [''CNSTRCT_YR'' \<mapsto> JSNumber 1984]\<rparr>,
          hit_screenPoint = \<lparr>point_x = 40, point_y = 30\<rparr>\<rparr>)) setupHoverTooltip))))
      = [\<lparr>handle_id = 1, handle_graphic = \<lparr>graphic_layer = 7, attributes = [''CNSTRCT_YR'' \<mapsto> JSNumber 2001]\<rparr>\<rparr>]
   \<and> highlight (snd (pointer_move
        (Resolved (Some \<lparr>hit_graphic =
            \<lparr>graphic_layer = 7, attributes = [''CNSTRCT_YR'' \<mapsto> JSNumber 2001]\<rparr>,
          hit_screenPoint = \<lparr>point_x = 140, point_y = 30\<rparr>\<rparr>))
        (snd (pointer_move
        (Resolved (Some \<lparr>hit_graphic =
            \<lparr>graphic_layer = 7, attributes = [''CNSTRCT_YR'' \<mapsto> JSNumber 1984]\<rparr>,
          hit_screenPoint = \<lparr>point_x = 40, point_y = 30\<rparr>\<rparr>)) setupHoverTooltip))))
      = Some \<lparr>handle_id = 1, handle_graphic = \<lparr>graphic_layer = 7, attributes = [''CNSTRCT_YR'' \<mapsto> JSNumber 2001]\<rparr>\<rparr>
   \<and> visible (tip (snd (pointer_move
        (Resolved (Some \<lparr>hit_graphic =
            \<lparr>graphic_layer = 7, attributes = [''CNSTRCT_YR'' \<mapsto> JSNumber 2001]\<rparr>,
          hit_screenPoint = \<lparr>point_x = 140, point_y = 30\<rparr>\<rparr>))
        (snd (pointer_move
        (Resolved (Some \<lparr>hit_graphic =
            \<lparr>graphic_layer = 7, attributes = [''CNSTRCT_YR'' \<mapsto> JSNumber 1984]\<rparr>,
          hit_screenPoint = \<lparr>point_x = 40, point_y = 30\<rparr>\<rparr>)) setupHoverTooltip)))))
   \<and> targetX (tip (snd (pointer_move
        (Resolved (Some \<lparr>hit_graphic =
            \<lparr>graphic_layer = 7, attributes = [''CNSTRCT_YR'' \<mapsto> JSNumber 2001]\<rparr>,
          hit_screenPoint = \<lparr>point_x = 140, point_y = 30\<rparr>\<rparr>))
        (snd (pointer_move
        (Resolved (Some \<lparr>hit_graphic =
            \<lparr>graphic_layer = 7, attributes = [''CNSTRCT_YR'' \<mapsto> JSNumber 1984]\<rparr>,
          hit_screenPoint = \<lparr>point_x = 40, point_y = 30\<rparr>\<rparr>)) setupHoverTooltip))))) = 140
   \<and> x (tip (snd (pointer_move
        (Resolved (Some \<lparr>hit_graphic =
            \<lparr>graphic_layer = 7, attributes = [''CNSTRCT_YR'' \<mapsto> JSNumber 2001]\<rparr>,
          hit_screenPoint = \<lparr>point_x = 140, point_y = 30\<rparr>\<rparr>))
        (snd (pointer_move
        (Resolved (Some \<lparr>hit_graphic =
            \<lparr>graphic_layer = 7, attributes = [''CNSTRCT_YR'' \<mapsto> JSNumber 1984]\<rparr>,
          hit_screenPoint = \<lparr>point_x = 40, point_y = 30\<rparr>\<rparr>)) setupHoverTooltip))))) = 50
   \<and> innerHTML (tip (snd (pointer_move
        (Resolved (Some \<lparr>hit_graphic =
            \<lparr>graphic_layer = 7, attributes = [''CNSTRCT_YR'' \<mapsto> JSNumber 2001]\<rparr>,
          hit_screenPoint = \<lparr>point_x = 140, point_y = 30\<rparr>\<rparr>))
        (snd (pointer_move
        (Resolved (Some \<lparr>hit_graphic =
            \<lparr>graphic_layer = 7, attributes = [''CNSTRCT_YR'' \<mapsto> JSNumber 1984]\<rparr>,
          hit_screenPoint = \<lparr>point_x = 40, point_y = 30\<rparr>\<rparr>)) setupHoverTooltip))))) = ''Titled in 2001''
   \<and> applied (snd (pointer_move (Resolved None)
        (snd (pointer_move
        (Resolved (Some \<lparr>hit_graphic =
            \<lparr>graphic_layer = 7, attributes = [''CNSTRCT_YR'' \<mapsto> JSNumber 1984]\<rparr>,
          hit_screenPoint = \<lparr>point_x = 40, point_y = 30\<rparr>\<rparr>)) setupHoverTooltip)))) = []
   \<and> highlight (snd (pointer_move (Resolved None)
        (snd (pointer_move
        (Resolved (Some \<lparr>hit_graphic =
            \<lparr>graphic_layer = 7, attributes = [''CNSTRCT_YR'' \<mapsto> JSNumber 1984]\<rparr>,
          hit_screenPoint = \<lparr>point_x = 40, point_y = 30\<rparr>\<rparr>)) setupHoverTooltip)))) = None
   \<and> \<not> visible (tip (snd (pointer_move (Resolved None)
        (snd (pointer_move
        (Resolved (Some \<lparr>hit_graphic =
            \<lparr>graphic_layer = 7, attributes = [''CNSTRCT_YR'' \<mapsto> JSNumber 1984]\<rparr>,
          hit_screenPoint = \<lparr>point_x = 40, point_y = 30\<rparr>\<rparr>)) setupHoverTooltip)))))
   \<and> style_opacity (tip (snd (pointer_move (Resolved None)
        (snd (pointer_move
        (Resolved (Some \<lparr>hit_graphic =
            \<lparr>graphic_layer = 7, attributes = [''CNSTRCT_YR'' \<mapsto> JSNumber 1984]\<rparr>,
          hit_screenPoint = \<lparr>point_x = 40, point_y = 30\<rparr>\<rparr>)) setupHoverTooltip))))) = ''0''
   \<and> x (tip (snd (pointer_move (Resolved None)
        (snd (pointer_move
        (Resolved (Some \<lparr>hit_graphic =
            \<lparr>graphic_layer = 7, attributes = [''CNSTRCT_YR'' \<mapsto> JSNumber 1984]\<rparr>,
          hit_screenPoint = \<lparr>point_x = 40, point_y = 30\<rparr>\<rparr>)) setupHoverTooltip))))) = 40
   \<and> innerHTML (tip (snd (pointer_move (Resolved None)
        (snd (pointer_move
        (Resolved (Some \<lparr>hit_graphic =
            \<lparr>graphic_layer = 7, attributes = [''CNSTRCT_YR'' \<mapsto> JSNumber 1984]\<rparr>,
          hit_screenPoint = \<lparr>point_x = 40, point_y = 30\<rparr>\<rparr>)) setupHoverTooltip))))) = ''Titled in 1984''
   \<and> filter (\<lambda>g. graphic_layer g = 7)
        (results \<lparr>results = [\<lparr>graphic_layer = 3, attributes = Map.empty\<rparr>,
            \<lparr>graphic_layer = 7, attributes = [''CNSTRCT_YR'' \<mapsto> JSNumber 1984]\<rparr>],
          screenPoint = \<lparr>point_x = 40, point_y = 30\<rparr>\<rparr>)
      = [\<lparr>graphic_layer = 7, attributes = [''CNSTRCT_YR'' \<mapsto> JSNumber 1984]\<rparr>]
   \<and> hitTest 7 (Resolved \<lparr>results = [\<lparr>graphic_layer = 3, attributes = Map.empty\<rparr>,
            \<lparr>graphic_layer = 7, attributes = [''CNSTRCT_YR'' \<mapsto> JSNumber 1984]\<rparr>],
          screenPoint = \<lparr>point_x = 40, point_y = 30\<rparr>\<rparr>)
      = Resolved (Some \<lparr>hit_graphic =
            \<lparr>graphic_layer = 7, attributes = [''CNSTRCT_YR'' \<mapsto> JSNumber 1984]\<rparr>,
          hit_screenPoint = \<lparr>point_x = 40, point_y = 30\<rparr>\<rparr>)
   \<and> filter (\<lambda>g. graphic_layer g = 7)
        (results \<lparr>results = [\<lparr>graphic_layer = 3, attributes = Map.empty\<rparr>],
          screenPoint = \<lparr>point_x = 40, point_y = 30\<rparr>\<rparr>) = []
   \<and> hitTest 7 (Resolved \<lparr>results = [\<lparr>graphic_layer = 3, attributes = Map.empty\<rparr>],
          screenPoint = \<lparr>point_x = 40, point_y = 30\<rparr>\<rparr>) = Resolved None"
proof -
  define h1 where "h1 = (snd (pointer_move
        (Resolved (Some \<lparr>hit_graphic =
            \<lparr>graphic_layer = 7, attributes = [''CNSTRCT_YR'' \<mapsto> JSNumber 1984]\<rparr>,
          hit_screenPoint = \<lparr>point_x = 40, point_y = 30\<rparr>\<rparr>)) setupHoverTooltip))"
  have shown: "single_highlight h1"
    unfolding h1_def
    using setupHoverTooltip_single_highlight by (rule pointer_move_single_highlight)
  have h1: "highlight h1 = Some \<lparr>handle_id = 0, handle_graphic = \<lparr>graphic_layer = 7, attributes = [''CNSTRCT_YR'' \<mapsto> JSNumber 1984]\<rparr>\<rparr>"
    "applied h1 = [\<lparr>handle_id = 0, handle_graphic = \<lparr>graphic_layer = 7, attributes = [''CNSTRCT_YR'' \<mapsto> JSNumber 1984]\<rparr>\<rparr>]"
    "next_id h1 = 1"
    "tip h1 = \<lparr>x = 40, y = 30, targetX = 40, targetY = 30, visible = True,
       style_opacity = ''1'', style_transform = ''translate3d(40px,30px, 0)'',
       innerHTML = ''Titled in 1984'', frame_requests = 0\<rparr>"
    by (simp_all add: h1_def pointer_move_def remove_current_def layerview_highlight_def
        setupHoverTooltip_def createTooltip_def show_tooltip_def move_def Let_def
        getAttribute_def string_of_int_def string_of_nat.simps digit_def Math_round_def)
  have "single_highlight h1
   \<and> highlight h1 = Some \<lparr>handle_id = 0, handle_graphic = \<lparr>graphic_layer = 7, attributes = [''CNSTRCT_YR'' \<mapsto> JSNumber 1984]\<rparr>\<rparr>
   \<and> applied h1 = [\<lparr>handle_id = 0, handle_graphic = \<lparr>graphic_layer = 7, attributes = [''CNSTRCT_YR'' \<mapsto> JSNumber 1984]\<rparr>\<rparr>]
   \<and> visible (tip h1) \<and> x (tip h1) = 40 \<and> innerHTML (tip h1) = ''Titled in 1984''
   \<and> applied (remove_current h1) = [] \<and> highlight (remove_current h1) = None
   \<and> applied (snd (pointer_move (Resolved (Some \<lparr>hit_graphic =
            \<lparr>graphic_layer = 7, attributes = [''CNSTRCT_YR'' \<mapsto> JSNumber 2001]\<rparr>,
          hit_screenPoint = \<lparr>point_x = 140, point_y = 30\<rparr>\<rparr>)) h1))
      = [\<lparr>handle_id = 1, handle_graphic = \<lparr>graphic_layer = 7, attributes = [''CNSTRCT_YR'' \<mapsto> JSNumber 2001]\<rparr>\<rparr>]
   \<and> highlight (snd (pointer_move (Resolved (Some \<lparr>hit_graphic =
            \<lparr>graphic_layer = 7, attributes = [''CNSTRCT_YR'' \<mapsto> JSNumber 2001]\<rparr>,
          hit_screenPoint = \<lparr>point_x = 140, point_y = 30\<rparr>\<rparr>)) h1))
      = Some \<lparr>handle_id = 1, handle_graphic = \<lparr>graphic_layer = 7, attributes = [''CNSTRCT_YR'' \<mapsto> JSNumber 2001]\<rparr>\<rparr>
   \<and> visible (tip (snd (pointer_move (Resolved (Some \<lparr>hit_graphic =
            \<lparr>graphic_layer = 7, attributes = [''CNSTRCT_YR'' \<mapsto> JSNumber 2001]\<rparr>,
          hit_screenPoint = \<lparr>point_x = 140, point_y = 30\<rparr>\<rparr>)) h1)))
   \<and> targetX (tip (snd (pointer_move (Resolved (Some \<lparr>hit_graphic =
            \<lparr>graphic_layer = 7, attributes = [''CNSTRCT_YR'' \<mapsto> JSNumber 2001]\<rparr>,
          hit_screenPoint = \<lparr>point_x = 140, point_y = 30\<rparr>\<rparr>)) h1))) = 140
   \<and> x (tip (snd (pointer_move (Resolved (Some \<lparr>hit_graphic =
            \<lparr>graphic_layer = 7, attributes = [''CNSTRCT_YR'' \<mapsto> JSNumber 2001]\<rparr>,
          hit_screenPoint = \<lparr>point_x = 140, point_y = 30\<rparr>\<rparr>)) h1))) = 50
   \<and> innerHTML (tip (snd (pointer_move (Resolved (Some \<lparr>hit_graphic =
            \<lparr>graphic_layer = 7, attributes = [''CNSTRCT_YR'' \<mapsto> JSNumber 2001]\<rparr>,
          hit_screenPoint = \<lparr>point_x = 140, point_y = 30\<rparr>\<rparr>)) h1))) = ''Titled in 2001''
   \<and> applied (snd (pointer_move (Resolved None) h1)) = []
   \<and> highlight (snd (pointer_move (Resolved None) h1)) = None
   \<and> \<not> visible (tip (snd (pointer_move (Resolved None) h1)))
   \<and> style_opacity (tip (snd (pointer_move (Resolved None) h1))) = ''0''
   \<and> x (tip (snd (pointer_move (Resolved None) h1))) = 40
   \<and> innerHTML (tip (snd (pointer_move (Resolved None) h1))) = ''Titled in 1984''
   \<and> filter (\<lambda>g. graphic_layer g = 7)
        (results \<lparr>results = [\<lparr>graphic_layer = 3, attributes = Map.empty\<rparr>,
            \<lparr>graphic_layer = 7, attributes = [''CNSTRCT_YR'' \<mapsto> JSNumber 1984]\<rparr>],
          screenPoint = \<lparr>point_x = 40, point_y = 30\<rparr>\<rparr>)
      = [\<lparr>graphic_layer = 7, attributes = [''CNSTRCT_YR'' \<mapsto> JSNumber 1984]\<rparr>]
   \<and> hitTest 7 (Resolved \<lparr>results = [\<lparr>graphic_layer = 3, attributes = Map.empty\<rparr>,
            \<lparr>graphic_layer = 7, attributes = [''CNSTRCT_YR'' \<mapsto> JSNumber 1984]\<rparr>],
          screenPoint = \<lparr>point_x = 40, point_y = 30\<rparr>\<rparr>)
      = Resolved (Some \<lparr>hit_graphic =
            \<lparr>graphic_layer = 7, attributes = [''CNSTRCT_YR'' \<mapsto> JSNumber 1984]\<rparr>,
          hit_screenPoint = \<lparr>point_x = 40, point_y = 30\<rparr>\<rparr>)
   \<and> filter (\<lambda>g. graphic_layer g = 7)
        (results \<lparr>results = [\<lparr>graphic_layer = 3, attributes = Map.empty\<rparr>],
          screenPoint = \<lparr>point_x = 40, point_y = 30\<rparr>\<rparr>) = []
   \<and> hitTest 7 (Resolved \<lparr>results = [\<lparr>graphic_layer = 3, attributes = Map.empty\<rparr>],
          screenPoint = \<lparr>point_x = 40, point_y = 30\<rparr>\<rparr>) = Resolved None"
    using shown
      pointer_move_highlights [OF shown,
        of "\<lparr>hit_graphic =
            \<lparr>graphic_layer = 7, attributes = [''CNSTRCT_YR'' \<mapsto> JSNumber 2001]\<rparr>,
          hit_screenPoint = \<lparr>point_x = 140, point_y = 30\<rparr>\<rparr>"
           7
           "\<lparr>results = [\<lparr>graphic_layer = 3, attributes = Map.empty\<rparr>,
            \<lparr>graphic_layer = 7, attributes = [''CNSTRCT_YR'' \<mapsto> JSNumber 1984]\<rparr>],
          screenPoint = \<lparr>point_x = 40, point_y = 30\<rparr>\<rparr>"
           "\<lparr>graphic_layer = 7, attributes = [''CNSTRCT_YR'' \<mapsto> JSNumber 1984]\<rparr>" "[]"]
      pointer_move_highlights [OF shown,
        of _ 7 "\<lparr>results = [\<lparr>graphic_layer = 3, attributes = Map.empty\<rparr>],
          screenPoint = \<lparr>point_x = 40, point_y = 30\<rparr>\<rparr>"]
    by (simp add: h1 show_tooltip_def move_position move_frame
        getAttribute_def string_of_int_def string_of_nat.simps digit_def)
  then show ?thesis
    unfolding h1_def .
qed

end
